theory Spec2Isabelle
  imports Complex_Main
begin

section \<open>Python values and errors\<close>

text \<open>
  Every Python call may raise, so every operation of the model returns a sum: \<open>Inl\<close> an
  exception, \<open>Inr\<close> the value. \<open>HTTPException\<close> is FastAPI's (status code and detail);
  \<open>Exception\<close> stands for every other subclass of Python's \<open>Exception\<close> and carries
  \<open>str(e)\<close>.
\<close>

datatype error = HTTPException int string | Exception string

text \<open>
  The values a decoded JSON document holds, which are the values an argument dictionary
  of a tool call and the reply of the generation endpoint can contain. Nothing in the
  code checks their type, so the handlers below take any of them. A number with a
  fraction is the rational it denotes; a dictionary is the list of its items, each key
  once.
\<close>

datatype py =
    PNone
  | PBool bool
  | PInt int
  | PFloat rat
  | PStr string
  | PList "py list"
  | PDict "(string \<times> py) list"

text \<open>Python's truth value of a value: \<open>if x\<close>, \<open>not x\<close>, \<open>x or y\<close>.\<close>

fun truthy :: "py \<Rightarrow> bool" where
  "truthy PNone = False"
| "truthy (PBool b) = b"
| "truthy (PInt i) = (i \<noteq> 0)"
| "truthy (PFloat r) = (r \<noteq> 0)"
| "truthy (PStr s) = (s \<noteq> [])"
| "truthy (PList xs) = (xs \<noteq> [])"
| "truthy (PDict kvs) = (kvs \<noteq> [])"

text \<open>
  An argument dictionary, \<open>Dict[str, Any]\<close>, and \<open>arguments.get(key)\<close>, which is \<open>None\<close>
  for a key that is absent.
\<close>

type_synonym arguments = "string \<rightharpoonup> py"

definition get :: "arguments \<Rightarrow> string \<Rightarrow> py" where
  "get args key = (case args key of None \<Rightarrow> PNone | Some v \<Rightarrow> v)"

section \<open>The LLM adapter: app/llm/ollama_client.py\<close>

text \<open>
  \<open>OllamaClient.generate\<close> builds a payload, issues one \<open>requests.post\<close> and reads
  the reply inside one \<open>try\<close> block. The network is the environment: \<open>requests.post\<close>
  raises (\<open>PostRaised\<close>: connection error, timeout) or returns a response with a
  status code and a body; \<open>response.json()\<close> raises on a body that is no JSON
  (\<open>NotJson\<close>) or yields the decoded value.
\<close>

datatype body = NotJson string | Json py

datatype http_outcome = PostRaised string | Response (status_code: int) (body: body)

record generate_options =
  temperature :: rat
  num_predict :: int

record payload =
  model :: string
  prompt :: string
  options :: generate_options

record post_call =
  url :: string
  json :: payload
  timeout :: nat

record OllamaClient =
  base_url :: string

section \<open>The task store: app/db/models.py\<close>

text \<open>
  A row of the table \<open>research_tasks\<close>. The column \<open>id\<close> is written \<open>id'\<close> (\<open>id\<close> is
  HOL's identity function). The three \<open>String\<close> columns hold text; \<open>result\<close> is
  nullable; \<open>timestamp\<close> is the clock's reading at insertion.
\<close>

record ResearchTaskORM =
  id' :: int
  query :: string
  status :: string
  result :: "string option"
  timestamp :: nat

text \<open>
  The state of the system: the rows of the table in rowid order, the POST requests
  issued to the generation endpoint so far, and the background work scheduled so far
  (\<open>background_tasks.add_task\<close>, \<open>asyncio.create_task\<close>), each entry the arguments
  \<open>(task_id, query)\<close> of the callback. Every handler and every callback is one step on this
  state; a run of the system is a sequence of such steps, in any order.
\<close>

record world =
  tasks :: "ResearchTaskORM list"
  sent :: "post_call list"
  scheduled :: "(int \<times> py) list"

text \<open>
  What the code does not control. \<open>reply\<close> is the outcome of the k-th POST and
  \<open>utcnow\<close> the clock. With \<open>db_error = Some msg\<close> the session's first operation
  raises an exception whose text is \<open>msg\<close>; nothing was committed then, so the table is
  as before. The other four are what the libraries do with a value that is not of the
  type the code assumes, which the code passes to them unchecked:
  \<^item> \<open>db_bind v\<close>: \<open>db.commit()\<close> with the value \<open>v\<close>, which is no text, assigned to a
    \<open>String\<close> column: it raises, or stores a text;
  \<^item> \<open>db_key v\<close>: the lookup \<open>filter(ResearchTaskORM.id == v)\<close> for a value \<open>v\<close> that is
    no integer: it raises, matches no row, or matches the rows with one key;
  \<^item> \<open>validate_str v\<close>: a response model's \<open>str\<close> field given the value \<open>v\<close>, which
    is no text: it raises a validation error, or converts;
  \<^item> \<open>format_other v\<close>: the text an f-string gives for a float, list or dictionary.
\<close>

record env =
  reply :: "nat \<Rightarrow> post_call \<Rightarrow> http_outcome"
  utcnow :: nat
  db_error :: "string option"
  db_bind :: "py \<Rightarrow> error + string"
  db_key :: "py \<Rightarrow> error + int option"
  validate_str :: "py \<Rightarrow> error + string"
  format_other :: "py \<Rightarrow> string"

definition bind_text :: "env \<Rightarrow> py \<Rightarrow> error + string" where
  "bind_text e v = (case v of PStr s \<Rightarrow> Inr s | _ \<Rightarrow> db_bind e v)"

definition as_str :: "env \<Rightarrow> py \<Rightarrow> error + string" where
  "as_str e v = (case v of PStr s \<Rightarrow> Inr s | _ \<Rightarrow> validate_str e v)"

text \<open>The first row with the key \<open>task_id\<close>.\<close>

definition first_by_id :: "int \<Rightarrow> ResearchTaskORM list \<Rightarrow> ResearchTaskORM option" where
  "first_by_id task_id rows = find (\<lambda>r. id' r = task_id) rows"

text \<open>
  \<open>db.query(ResearchTaskORM).filter(ResearchTaskORM.id == task_id).first()\<close>. An
  integer outside SQLite's signed 64-bit range cannot be bound to the statement: the
  lookup raises \<open>OverflowError\<close>.
\<close>

definition in_int64 :: "int \<Rightarrow> bool" where
  "in_int64 n = (- (2 ^ 63) \<le> n \<and> n < 2 ^ 63)"

definition overflow_error :: error where
  "overflow_error = Exception ''Python int too large to convert to SQLite INTEGER''"

definition query_first :: "env \<Rightarrow> py \<Rightarrow> ResearchTaskORM list \<Rightarrow> error + ResearchTaskORM option" where
  "query_first e task_id rows =
     (case db_error e of
        Some msg \<Rightarrow> Inl (Exception msg)
      | None \<Rightarrow>
          (case task_id of
             PInt n \<Rightarrow> if in_int64 n then Inr (first_by_id n rows) else Inl overflow_error
           | _ \<Rightarrow>
               (case db_key e task_id of
                  Inl err \<Rightarrow> Inl err
                | Inr None \<Rightarrow> Inr None
                | Inr (Some k) \<Rightarrow> Inr (first_by_id k rows))))"

text \<open>
  \<open>db.commit()\<close> of a loaded and modified object: the row with its primary key is
  replaced.
\<close>

definition commit_row :: "ResearchTaskORM \<Rightarrow> ResearchTaskORM list \<Rightarrow> ResearchTaskORM list" where
  "commit_row task rows = map (\<lambda>r. if id' r = id' task then task else r) rows"

text \<open>
  The primary key of an inserted row, \<open>Column(Integer, primary_key=True)\<close> on SQLite:
  1 in an empty table, else one more than the largest key in use.
\<close>

definition next_id :: "ResearchTaskORM list \<Rightarrow> int" where
  "next_id rows = (case rows of [] \<Rightarrow> 1 | r # rs \<Rightarrow> fold (\<lambda>x m. max (id' x) m) rs (id' r) + 1)"

definition fallback :: string where
  "fallback = ''LLM did not return a result.''"

text \<open>Python's \<open>x or "LLM did not return a result."\<close>.\<close>

definition or_fallback :: "py \<Rightarrow> py" where
  "or_fallback x = (if truthy x then x else PStr fallback)"

section \<open>OllamaClient.generate\<close>

definition post_of :: "OllamaClient \<Rightarrow> string \<Rightarrow> string \<Rightarrow> rat \<Rightarrow> int \<Rightarrow> post_call" where
  "post_of self prompt' model' temperature' max_tokens =
     \<lparr>url = base_url self @ ''/api/generate'',
      json = \<lparr>model = model', prompt = prompt',
              options = \<lparr>temperature = temperature', num_predict = max_tokens\<rparr>\<rparr>,
      timeout = 60\<rparr>"

text \<open>
  \<open>response.raise_for_status()\<close> raises for the client and server error codes, 400 to
  599, and for no other code.
\<close>

definition raises_for_status :: "int \<Rightarrow> bool" where
  "raises_for_status code = (400 \<le> code \<and> code < 600)"

text \<open>
  The body of the \<open>try\<close> block, given the outcome of the POST. \<open>data.get("response")\<close>
  is the value under the key, whatever its type, \<open>None\<close> without the key, and raises
  \<open>AttributeError\<close> when \<open>data\<close> is no dictionary. The messages of the status error and
  of the attribute error are placeholders: \<open>generate\<close> discards them.
\<close>

definition generate_try :: "http_outcome \<Rightarrow> error + py" where
  "generate_try outcome =
     (case outcome of
        PostRaised msg \<Rightarrow> Inl (Exception msg)
      | Response code b \<Rightarrow>
          if raises_for_status code then Inl (Exception ''HTTPError'')
          else
            (case b of
               NotJson msg \<Rightarrow> Inl (Exception msg)
             | Json data \<Rightarrow>
                 (case data of
                    PDict items \<Rightarrow>
                      (case map_of items ''response'' of None \<Rightarrow> Inr PNone | Some v \<Rightarrow> Inr v)
                  | _ \<Rightarrow> Inl (Exception ''AttributeError''))))"

text \<open>
  \<open>generate\<close>: one POST is issued and logged; \<open>except Exception\<close> turns every exception
  of the block into the return value \<open>None\<close> (the message it prints is not modelled).
\<close>

definition generate ::
  "OllamaClient \<Rightarrow> string \<Rightarrow> string \<Rightarrow> rat \<Rightarrow> int \<Rightarrow> env \<Rightarrow> world \<Rightarrow> world \<times> (error + py)" where
  "generate self prompt' model' temperature' max_tokens e w =
     (let call = post_of self prompt' model' temperature' max_tokens;
          outcome = reply e (length (sent w)) call;
          w' = w\<lparr>sent := sent w @ [call]\<rparr>
      in (w', case generate_try outcome of
                Inl (HTTPException c d) \<Rightarrow> Inr PNone
              | Inl (Exception msg) \<Rightarrow> Inr PNone
              | Inr r \<Rightarrow> Inr r))"

text \<open>
  The module-level client of both adapters, \<open>OllamaClient()\<close>, and a call with the
  defaults \<open>temperature = 0.2\<close>, \<open>max_tokens = 512\<close>, as every caller makes it.
\<close>

definition ollama_client :: OllamaClient where
  "ollama_client = \<lparr>base_url = ''http://localhost:11434''\<rparr>"

definition ollama_generate :: "string \<Rightarrow> string \<Rightarrow> env \<Rightarrow> world \<Rightarrow> world \<times> (error + py)" where
  "ollama_generate prompt' model' e w = generate ollama_client prompt' model' (1 / 5) 512 e w"

text \<open>
  The failures of the HTTP call: the POST raised (network error, timeout), the status
  is a client or server error, the body is no JSON or no JSON object, or the object has
  no \<open>response\<close> field or a null one.
\<close>

definition failed :: "http_outcome \<Rightarrow> bool" where
  "failed outcome =
     (case outcome of
        PostRaised msg \<Rightarrow> True
      | Response code b \<Rightarrow>
          raises_for_status code
          \<or> (case b of
                NotJson msg \<Rightarrow> True
              | Json data \<Rightarrow>
                  (case data of
                     PDict items \<Rightarrow>
                       map_of items ''response'' = None \<or> map_of items ''response'' = Some PNone
                   | _ \<Rightarrow> True)))"

section \<open>Text helpers\<close>

text \<open>Python's \<open>str\<close> of an integer.\<close>

definition digit :: "nat \<Rightarrow> char" where
  "digit n = ''0123456789'' ! n"

function str_nat :: "nat \<Rightarrow> string" where
  "str_nat n = (if n < 10 then [digit n] else str_nat (n div 10) @ [digit (n mod 10)])"
  by pat_completeness auto
termination
  by (relation "measure id") auto

declare str_nat.simps [simp del]

definition str_int :: "int \<Rightarrow> string" where
  "str_int i = (if i < 0 then ''-'' @ str_nat (nat (- i)) else str_nat (nat i))"

text \<open>
  The text an f-string gives for a value, \<open>f"{v}"\<close>: a text is itself, an integer its
  digits, \<open>None\<close>, \<open>True\<close> and \<open>False\<close> their names; for the other values the text is
  the environment's.
\<close>

definition py_format :: "env \<Rightarrow> py \<Rightarrow> string" where
  "py_format e v =
     (case v of
        PNone \<Rightarrow> ''None''
      | PBool b \<Rightarrow> if b then ''True'' else ''False''
      | PInt i \<Rightarrow> str_int i
      | PStr s \<Rightarrow> s
      | _ \<Rightarrow> format_other e v)"

text \<open>\<open>sep.join(xs)\<close>.\<close>

fun join :: "string \<Rightarrow> string list \<Rightarrow> string" where
  "join sep [] = []"
| "join sep [x] = x"
| "join sep (x # y # ys) = x @ sep @ join sep (y # ys)"


definition analysis_prompt :: "string \<Rightarrow> string" where
  "analysis_prompt c =
     ''Analyze and summarize the following content for accuracy, relevance, and key points.''
       @ [CHR 0x0A, CHR 0x0A] @ ''Content:'' @ [CHR 0x0A] @ c"

section \<open>The HTTP adapter: app/main.py\<close>

text \<open>
  The response model \<open>ResearchTask\<close> has the five fields of the row; the handlers build
  it field by field from the ORM object.
\<close>

type_synonym ResearchTask = ResearchTaskORM

definition ResearchTask_of :: "ResearchTaskORM \<Rightarrow> ResearchTask" where
  "ResearchTask_of t =
     \<lparr>id' = id' t, query = query t, status = status t, result = result t, timestamp = timestamp t\<rparr>"

text \<open>
  The request models. A body that lacks \<open>query\<close> or \<open>content\<close>, or gives a field a
  value that is no text, never reaches a handler (the framework answers it), so the
  handlers take a \<open>string\<close>; the optional fields of \<open>ResearchTaskUpdate\<close> default to
  \<open>None\<close>. The path parameter \<open>task_id\<close> is any integer.
\<close>

record ResearchTaskRequest =
  req_query :: string

record ResearchTaskUpdate =
  upd_status :: "string option"
  upd_result :: "string option"

record ContentAnalysisRequest =
  req_content :: string

record ContentAnalysisResponse =
  analysis :: string

text \<open>\<open>GET /research\<close>.\<close>

definition get_research_tasks :: "env \<Rightarrow> world \<Rightarrow> world \<times> (error + ResearchTask list)" where
  "get_research_tasks e w =
     (case db_error e of
        Some msg \<Rightarrow> (w, Inl (Exception msg))
      | None \<Rightarrow> (w, Inr (map ResearchTask_of (tasks w))))"


text \<open>\<open>POST /research\<close>: no check of the query's content.\<close>

definition main_create_research_task ::
  "env \<Rightarrow> ResearchTaskRequest \<Rightarrow> world \<Rightarrow> world \<times> (error + ResearchTask)" where
  "main_create_research_task e task_req w =
     (case db_error e of
        Some msg \<Rightarrow> (w, Inl (Exception msg))
      | None \<Rightarrow>
          (let task = \<lparr>id' = next_id (tasks w), query = req_query task_req, status = ''pending'',
                       result = None, timestamp = utcnow e\<rparr>;
               w1 = w\<lparr>tasks := tasks w @ [task]\<rparr>;
               w2 = w1\<lparr>scheduled := scheduled w1 @ [(id' task, PStr (query task))]\<rparr>
           in (w2, Inr (ResearchTask_of task))))"

text \<open>\<open>PATCH /research/{task_id}\<close>: a field is written when it \<open>is not None\<close>.\<close>

definition main_update_research_task ::
  "env \<Rightarrow> ResearchTaskUpdate \<Rightarrow> int \<Rightarrow> world \<Rightarrow> world \<times> (error + ResearchTask)" where
  "main_update_research_task e update task_id w =
     (case query_first e (PInt task_id) (tasks w) of
        Inl err \<Rightarrow> (w, Inl err)
      | Inr None \<Rightarrow> (w, Inl (HTTPException 404 ''Task not found''))
      | Inr (Some task) \<Rightarrow>
          (let task1 = (case upd_status update of None \<Rightarrow> task | Some s \<Rightarrow> task\<lparr>status := s\<rparr>);
               task2 = (case upd_result update of None \<Rightarrow> task1 | Some r \<Rightarrow> task1\<lparr>result := Some r\<rparr>)
           in (w\<lparr>tasks := commit_row task2 (tasks w)\<rparr>, Inr (ResearchTask_of task2))))"

text \<open>
  \<open>POST /analyze\<close>: no check of the content, no session. The response model's field
  \<open>analysis\<close> is a \<open>str\<close>.
\<close>

definition main_analyze_content ::
  "env \<Rightarrow> ContentAnalysisRequest \<Rightarrow> world \<Rightarrow> world \<times> (error + ContentAnalysisResponse)" where
  "main_analyze_content e request w =
     (case ollama_generate (analysis_prompt (req_content request)) ''llama3.2'' e w of
        (w', Inl err) \<Rightarrow> (w', Inl err)
      | (w', Inr a) \<Rightarrow>
          (case as_str e (or_fallback a) of
             Inl err \<Rightarrow> (w', Inl err)
           | Inr s \<Rightarrow> (w', Inr \<lparr>analysis = s\<rparr>)))"

section \<open>The tool-call adapter: app/mcp_server.py\<close>

text \<open>
  A result envelope: \<open>CallToolResult(content=[TextContent(type="text", text=...)])\<close>.
  The fields \<open>type\<close> and \<open>text\<close> are written \<open>type'\<close> and \<open>text'\<close>; \<open>isError\<close> is
  the envelope's error flag, \<open>False\<close> unless set, and no handler sets it.
\<close>

record TextContent =
  type' :: string
  text' :: string

record CallToolResult =
  content :: "TextContent list"
  isError :: bool

definition text_result :: "string \<Rightarrow> CallToolResult" where
  "text_result s = \<lparr>content = [\<lparr>type' = ''text'', text' = s\<rparr>], isError = False\<rparr>"


text \<open>
  The tool \<open>create_research_task\<close>: \<open>if not query\<close> comes before the session; the
  commit binds the query to its column.
\<close>

definition mcp_create_research_task :: "env \<Rightarrow> arguments \<Rightarrow> world \<Rightarrow> world \<times> (error + CallToolResult)" where
  "mcp_create_research_task e args w =
     (let q = get args ''query'' in
      if \<not> truthy q then (w, Inr (text_result ''Error: query is required''))
      else
        (case db_error e of
           Some msg \<Rightarrow> (w, Inl (Exception msg))
         | None \<Rightarrow>
             (case bind_text e q of
                Inl err \<Rightarrow> (w, Inl err)
              | Inr stored \<Rightarrow>
                  (let task = \<lparr>id' = next_id (tasks w), query = stored, status = ''pending'',
                               result = None, timestamp = utcnow e\<rparr>;
                       w1 = w\<lparr>tasks := tasks w @ [task]\<rparr>;
                       w2 = w1\<lparr>scheduled := scheduled w1 @ [(id' task, q)]\<rparr>
                   in (w2, Inr (text_result
                         (''Research task created with ID '' @ str_int (id' task)
                            @ ''. Status: '' @ status task)))))))"

text \<open>The tool \<open>list_research_tasks\<close>.\<close>

definition task_line :: "ResearchTaskORM \<Rightarrow> string" where
  "task_line t = ''ID: '' @ str_int (id' t) @ '', Query: '' @ query t @ '', Status: '' @ status t"

definition list_research_tasks :: "env \<Rightarrow> world \<Rightarrow> world \<times> (error + CallToolResult)" where
  "list_research_tasks e w =
     (case db_error e of
        Some msg \<Rightarrow> (w, Inl (Exception msg))
      | None \<Rightarrow>
          (if tasks w = [] then (w, Inr (text_result ''No research tasks found.''))
           else (w, Inr (text_result
                   (''Research Tasks:'' @ [CHR 0x0A] @ join [CHR 0x0A] (map task_line (tasks w)))))))"

text \<open>
  The tool \<open>update_research_task\<close>: \<open>if not task_id\<close> comes before the session; a
  field is assigned when it is truthy, and the commit binds what was assigned.
\<close>

definition mcp_update_research_task :: "env \<Rightarrow> arguments \<Rightarrow> world \<Rightarrow> world \<times> (error + CallToolResult)" where
  "mcp_update_research_task e args w =
     (let task_id = get args ''task_id'';
          status' = get args ''status'';
          result' = get args ''result''
      in
      if \<not> truthy task_id then (w, Inr (text_result ''Error: task_id is required''))
      else
        (case query_first e task_id (tasks w) of
           Inl err \<Rightarrow> (w, Inl err)
         | Inr None \<Rightarrow> (w, Inr (text_result (''Task '' @ py_format e task_id @ '' not found'')))
         | Inr (Some task) \<Rightarrow>
             (case (if truthy status' then bind_text e status' else Inr (status task)) of
                Inl err \<Rightarrow> (w, Inl err)
              | Inr s \<Rightarrow>
                  (case (if truthy result' then map_sum (\<lambda>err. err) Some (bind_text e result')
                         else Inr (result task)) of
                     Inl err \<Rightarrow> (w, Inl err)
                   | Inr r \<Rightarrow>
                       (w\<lparr>tasks := commit_row (task\<lparr>status := s, result := r\<rparr>) (tasks w)\<rparr>,
                        Inr (text_result
                          (''Task '' @ py_format e task_id @ '' updated successfully. Status: ''
                             @ s)))))))"

text \<open>
  The tool \<open>analyze_content\<close>. The field \<open>text\<close> of \<open>TextContent\<close> is a \<open>str\<close>.
\<close>

definition mcp_analyze_content :: "env \<Rightarrow> arguments \<Rightarrow> world \<Rightarrow> world \<times> (error + CallToolResult)" where
  "mcp_analyze_content e args w =
     (let c = get args ''content'' in
      if \<not> truthy c then (w, Inr (text_result ''Error: content is required''))
      else
        (case ollama_generate (analysis_prompt (py_format e c)) ''llama3.2'' e w of
           (w', Inl err) \<Rightarrow> (w', Inl err)
         | (w', Inr a) \<Rightarrow>
             (case as_str e (or_fallback a) of
                Inl err \<Rightarrow> (w', Inl err)
              | Inr s \<Rightarrow> (w', Inr (text_result s)))))"

text \<open>
  \<open>str(e)\<close> of a caught exception, and the dispatcher: \<open>except Exception\<close> around
  the whole dispatch.
\<close>

definition str_error :: "error \<Rightarrow> string" where
  "str_error err = (case err of HTTPException c d \<Rightarrow> str_int c @ '': '' @ d | Exception msg \<Rightarrow> msg)"

definition dispatch :: "env \<Rightarrow> string \<Rightarrow> arguments \<Rightarrow> world \<Rightarrow> world \<times> (error + CallToolResult)" where
  "dispatch e name args w =
     (if name = ''create_research_task'' then mcp_create_research_task e args w
      else if name = ''list_research_tasks'' then list_research_tasks e w
      else if name = ''update_research_task'' then mcp_update_research_task e args w
      else if name = ''analyze_content'' then mcp_analyze_content e args w
      else (w, Inr (text_result (''Unknown tool: '' @ name))))"

definition handle_call_tool :: "env \<Rightarrow> string \<Rightarrow> arguments \<Rightarrow> world \<Rightarrow> world \<times> (error + CallToolResult)" where
  "handle_call_tool e name args w =
     (case dispatch e name args w of
        (w', Inl err) \<Rightarrow> (w', Inr (text_result (''Error: '' @ str_error err)))
      | (w', Inr r) \<Rightarrow> (w', Inr r))"

section \<open>Concrete environments and states\<close>

text \<open>
  Inputs on which the theorems below are evaluated. The environments differ in what
  the generation endpoint answers and in whether the database is available; in all of
  them the libraries refuse a value of the wrong type.
\<close>

definition env_with :: "http_outcome \<Rightarrow> string option \<Rightarrow> env" where
  "env_with outcome db =
     \<lparr>reply = (\<lambda>k c. outcome), utcnow = 0, db_error = db,
      db_bind = (\<lambda>v. Inl (Exception ''Error binding parameter: type is not supported'')),
      db_key = (\<lambda>v. Inl (Exception ''Error binding parameter: type is not supported'')),
      validate_str = (\<lambda>v. Inl (Exception ''Input should be a valid string'')),
      format_other = (\<lambda>v. ''<value>'')\<rparr>"

definition env_down :: env where
  "env_down = env_with (PostRaised ''Connection refused'') None"

definition env_text :: env where
  "env_text =
     env_with (Response 200 (Json (PDict [(''response'', PStr ''Use rotating proxies.'')]))) None"


definition env_number :: env where
  "env_number = env_with (Response 200 (Json (PDict [(''response'', PInt 42)]))) None"

definition env_redirect :: env where
  "env_redirect = env_with (Response 300 (Json (PDict [(''response'', PStr ''moved'')]))) None"

definition env_locked :: env where
  "env_locked = env_with (PostRaised ''Connection refused'') (Some ''database is locked'')"

definition world_empty :: world where
  "world_empty = \<lparr>tasks = [], sent = [], scheduled = []\<rparr>"

definition task_one :: ResearchTaskORM where
  "task_one = \<lparr>id' = 1, query = ''best laptop 2024'', status = ''completed'', result = Some ''X'',
                timestamp = 0\<rparr>"

definition world_one :: world where
  "world_one = \<lparr>tasks = [task_one], sent = [], scheduled = []\<rparr>"




section \<open>Rendering of the ids used below\<close>

lemma str_int_1: "str_int 1 = ''1''"
  by code_simp

lemma str_int_2: "str_int 2 = ''2''"
  by code_simp

section \<open>Properties of the LLM adapter\<close>

lemma generate_try_failed:
  "failed outcome \<Longrightarrow>
     generate_try outcome = Inr PNone \<or> (\<exists>msg. generate_try outcome = Inl (Exception msg))"
  by (auto simp: failed_def generate_try_def
      split: http_outcome.splits option.splits body.splits py.splits)



text \<open>
  C8 as stated fails on two outcomes. A status that is not 2xx and not an error, here
  300, passes \<open>raise_for_status\<close>, and the text of the body is returned. A body whose
  \<open>response\<close> is no text, here the number 42, is returned as it is, not as \<open>None\<close>.
\<close>

theorem generate_returns_body_of_300_and_non_text:
  "snd (generate ollama_client ''hi'' ''codellama'' (1 / 5) 512 env_redirect world_empty) =
     Inr (PStr ''moved'')
   \<and> snd (generate ollama_client ''hi'' ''codellama'' (1 / 5) 512 env_number world_empty) =
     Inr (PInt 42)"
  by (simp add: generate_def generate_try_def raises_for_status_def env_redirect_def env_number_def
      env_with_def Let_def)

text \<open>
  C8, as amended. For every prompt, model and options, every state and every outcome
  of the HTTP call, \<open>generate\<close> returns a value and raises nothing, and it has issued
  exactly one POST (no retry): the log of requests grows by the one call. When the
  POST raised, the status is a client or server error (400 to 599), the body is no
  JSON or no JSON object, or the object has no \<open>response\<close> field or a null one, the
  value returned is \<open>None\<close>.
\<close>

theorem generate_never_raises_no_retry:
  "\<exists>r. generate self p m t k e w = (w\<lparr>sent := sent w @ [post_of self p m t k]\<rparr>, Inr r)
     \<and> (failed (reply e (length (sent w)) (post_of self p m t k)) \<longrightarrow> r = PNone)"
proof (cases "generate_try (reply e (length (sent w)) (post_of self p m t k))")
  case (Inl err)
  then show ?thesis
    by (cases err) (simp_all add: generate_def Let_def)
next
  case (Inr r)
  with generate_try_failed [of "reply e (length (sent w)) (post_of self p m t k)"]
  show ?thesis
    by (auto simp: generate_def Let_def)
qed

theorem generate_never_raises_no_retry_witness:
  "failed (reply env_down (length (sent world_empty))
            (post_of ollama_client ''hi'' ''codellama'' (1 / 5) 512))
   \<and> failed (Response 404 (Json (PDict [(''response'', PStr ''x'')])))
   \<and> failed (Response 200 (Json (PDict [(''done'', PBool True)])))
   \<and> generate ollama_client ''hi'' ''codellama'' (1 / 5) 512 env_down world_empty
       = (world_empty\<lparr>sent := [post_of ollama_client ''hi'' ''codellama'' (1 / 5) 512]\<rparr>, Inr PNone)"
  using generate_never_raises_no_retry
    [of ollama_client "''hi''" "''codellama''" "1 / 5" 512 env_down world_empty]
  by (auto simp: failed_def raises_for_status_def env_down_def env_with_def world_empty_def)

section \<open>Properties of the task store\<close>

lemma first_by_id_SomeD:
  "first_by_id task_id rows = Some t \<Longrightarrow> id' t = task_id \<and> t \<in> set rows"
  unfolding first_by_id_def by (induction rows) (auto split: if_splits)

lemma first_by_id_commit_row:
  "first_by_id task_id rows = Some t0 \<Longrightarrow> id' t = task_id \<Longrightarrow>
     first_by_id task_id (commit_row t rows) = Some t"
  unfolding first_by_id_def commit_row_def by (induction rows) (auto split: if_splits)

lemma fold_max_ge: "m \<le> fold (\<lambda>x m. max (id' x) m) rs (m::int)"
  by (induction rs arbitrary: m) (auto intro: order_trans [OF max.cobounded2])

lemma fold_max_mem: "r \<in> set rs \<Longrightarrow> id' r \<le> fold (\<lambda>x m. max (id' x) m) rs (m::int)"
proof (induction rs arbitrary: m)
  case Nil
  then show ?case by simp
next
  case (Cons a rs)
  show ?case
  proof (cases "r = a")
    case True
    have "id' a \<le> max (id' a) m" by simp
    also have "\<dots> \<le> fold (\<lambda>x m. max (id' x) m) rs (max (id' a) m)" by (rule fold_max_ge)
    finally show ?thesis using True by simp
  next
    case False
    with Cons show ?thesis by simp
  qed
qed

lemma next_id_fresh: "r \<in> set rows \<Longrightarrow> id' r < next_id rows"
proof (cases rows)
  case Nil
  assume "r \<in> set rows"
  with Nil show ?thesis by simp
next
  case (Cons a rs)
  assume "r \<in> set rows"
  with Cons have "r = a \<or> r \<in> set rs" by auto
  then have "id' r \<le> fold (\<lambda>x m. max (id' x) m) rs (id' a)"
    using fold_max_ge [of "id' a" rs] fold_max_mem [of r rs "id' a"] by auto
  with Cons show ?thesis by (simp add: next_id_def)
qed

lemma next_id_notin: "next_id rows \<notin> id' ` set rows"
  using next_id_fresh by fastforce


section \<open>The background write-back\<close>










section \<open>Creating a task\<close>

lemma main_create_eq:
  "db_error e = None \<Longrightarrow>
     main_create_research_task e \<lparr>req_query = q\<rparr> w =
       (w\<lparr>tasks := tasks w @ [\<lparr>id' = next_id (tasks w), query = q, status = ''pending'',
                                 result = None, timestamp = utcnow e\<rparr>],
          scheduled := scheduled w @ [(next_id (tasks w), PStr q)]\<rparr>,
        Inr \<lparr>id' = next_id (tasks w), query = q, status = ''pending'', result = None,
             timestamp = utcnow e\<rparr>)"
  by (simp add: main_create_research_task_def ResearchTask_of_def Let_def)

lemma mcp_create_eq:
  "db_error e = None \<Longrightarrow> get args ''query'' = PStr q \<Longrightarrow> q \<noteq> [] \<Longrightarrow>
     mcp_create_research_task e args w =
       (w\<lparr>tasks := tasks w @ [\<lparr>id' = next_id (tasks w), query = q, status = ''pending'',
                                 result = None, timestamp = utcnow e\<rparr>],
          scheduled := scheduled w @ [(next_id (tasks w), PStr q)]\<rparr>,
        Inr (text_result (''Research task created with ID '' @ str_int (next_id (tasks w))
                            @ ''. Status: pending'')))"
  by (simp add: mcp_create_research_task_def bind_text_def Let_def)

lemma mcp_create_falsy:
  "\<not> truthy (get args ''query'') \<Longrightarrow>
     mcp_create_research_task e args w = (w, Inr (text_result ''Error: query is required''))"
  by (simp add: mcp_create_research_task_def Let_def)

text \<open>
  C4. While the database is available, a create with a non-empty query returns at
  once: the table has gained one record, the callback is scheduled and no request to
  the LLM has been made yet (\<open>sent\<close> is as before). The record's status is \<open>pending\<close>,
  its result is null, its query is the submitted one, and its id is not the id of any
  task already in the table. The HTTP adapter returns the record; the tool-call adapter
  returns the text that names the record's id and status.
\<close>

theorem create_returns_pending:
  assumes db: "db_error e = None"
    and q: "q \<noteq> []"
  shows "\<exists>rec.
           main_create_research_task e \<lparr>req_query = q\<rparr> w =
             (w\<lparr>tasks := tasks w @ [rec], scheduled := scheduled w @ [(id' rec, PStr q)]\<rparr>, Inr rec)
         \<and> mcp_create_research_task e (args(''query'' \<mapsto> PStr q)) w =
             (w\<lparr>tasks := tasks w @ [rec], scheduled := scheduled w @ [(id' rec, PStr q)]\<rparr>,
              Inr (text_result (''Research task created with ID '' @ str_int (id' rec)
                                  @ ''. Status: pending'')))
         \<and> status rec = ''pending'' \<and> result rec = None \<and> query rec = q
         \<and> id' rec \<notin> id' ` set (tasks w)"
proof -
  let ?rec = "\<lparr>id' = next_id (tasks w), query = q, status = ''pending'', result = None,
               timestamp = utcnow e\<rparr>"
  have http: "main_create_research_task e \<lparr>req_query = q\<rparr> w =
      (w\<lparr>tasks := tasks w @ [?rec], scheduled := scheduled w @ [(id' ?rec, PStr q)]\<rparr>, Inr ?rec)"
    using main_create_eq [OF db] by simp
  have arg: "get (args(''query'' \<mapsto> PStr q)) ''query'' = PStr q"
    by (simp add: get_def)
  have tool: "mcp_create_research_task e (args(''query'' \<mapsto> PStr q)) w =
      (w\<lparr>tasks := tasks w @ [?rec], scheduled := scheduled w @ [(id' ?rec, PStr q)]\<rparr>,
       Inr (text_result (''Research task created with ID '' @ str_int (id' ?rec)
                           @ ''. Status: pending'')))"
    using mcp_create_eq [OF db arg q] by simp
  have fresh: "id' ?rec \<notin> id' ` set (tasks w)"
    using next_id_notin [of "tasks w"] by simp
  from http tool fresh show ?thesis
    by (intro exI [of _ ?rec]) simp
qed

theorem create_returns_pending_witness:
  "db_error env_text = None \<and> ''best laptop 2024'' \<noteq> []
   \<and> main_create_research_task env_text \<lparr>req_query = ''best laptop 2024''\<rparr> world_one =
       (\<lparr>tasks = [task_one, \<lparr>id' = 2, query = ''best laptop 2024'', status = ''pending'',
                              result = None, timestamp = 0\<rparr>],
         sent = [], scheduled = [(2, PStr ''best laptop 2024'')]\<rparr>,
        Inr \<lparr>id' = 2, query = ''best laptop 2024'', status = ''pending'', result = None,
             timestamp = 0\<rparr>)
   \<and> snd (mcp_create_research_task env_text [''query'' \<mapsto> PStr ''best laptop 2024''] world_one) =
       Inr (text_result ''Research task created with ID 2. Status: pending'')"
  using create_returns_pending [of env_text "''best laptop 2024''" world_one Map.empty]
  by (simp add: env_text_def env_with_def world_one_def task_one_def main_create_research_task_def
      mcp_create_research_task_def get_def bind_text_def str_int_2
      ResearchTask_of_def next_id_def Let_def)

section \<open>Updating a task\<close>

lemma main_update_found:
  "db_error e = None \<Longrightarrow> in_int64 task_id \<Longrightarrow> first_by_id task_id (tasks w) = Some task \<Longrightarrow>
     main_update_research_task e upd task_id w =
       (w\<lparr>tasks := commit_row
             (task\<lparr>status := (case upd_status upd of None \<Rightarrow> status task | Some s \<Rightarrow> s),
                   result := (case upd_result upd of None \<Rightarrow> result task | Some r \<Rightarrow> Some r)\<rparr>)
             (tasks w)\<rparr>,
        Inr (task\<lparr>status := (case upd_status upd of None \<Rightarrow> status task | Some s \<Rightarrow> s),
                  result := (case upd_result upd of None \<Rightarrow> result task | Some r \<Rightarrow> Some r)\<rparr>))"
  by (cases task) (simp add: main_update_research_task_def query_first_def ResearchTask_of_def
      Let_def split: option.splits)

lemma main_update_lookup:
  assumes db: "db_error e = None" and rng: "in_int64 task_id"
    and found: "first_by_id task_id (tasks w) = Some task"
  shows "\<exists>t. first_by_id task_id (tasks (fst (main_update_research_task e upd task_id w))) = Some t
           \<and> status t = (case upd_status upd of None \<Rightarrow> status task | Some s \<Rightarrow> s)
           \<and> result t = (case upd_result upd of None \<Rightarrow> result task | Some r \<Rightarrow> Some r)"
proof -
  let ?t = "task\<lparr>status := (case upd_status upd of None \<Rightarrow> status task | Some s \<Rightarrow> s),
                 result := (case upd_result upd of None \<Rightarrow> result task | Some r \<Rightarrow> Some r)\<rparr>"
  have idt: "id' ?t = task_id"
    using first_by_id_SomeD [OF found] by simp
  have "first_by_id task_id (tasks (fst (main_update_research_task e upd task_id w))) = Some ?t"
    unfolding main_update_found [OF db rng found]
    using first_by_id_commit_row [OF found idt] by simp
  then show ?thesis by simp
qed

lemma mcp_update_world:
  assumes db: "db_error e = None"
    and found: "first_by_id n (tasks w) = Some task"
    and arg: "get args ''task_id'' = PInt n"
  shows "fst (mcp_update_research_task e args w) = w
       \<or> (\<exists>s r. fst (mcp_update_research_task e args w) =
                  w\<lparr>tasks := commit_row (task\<lparr>status := s, result := r\<rparr>) (tasks w)\<rparr>
              \<and> (\<not> truthy (get args ''status'') \<longrightarrow> s = status task)
              \<and> (\<not> truthy (get args ''result'') \<longrightarrow> r = result task))"
proof (cases "n \<noteq> 0 \<and> in_int64 n")
  case False
  with db arg show ?thesis
    by (auto simp: mcp_update_research_task_def query_first_def Let_def)
next
  case True
  with db found arg have qf: "query_first e (get args ''task_id'') (tasks w) = Inr (Some task)"
    by (simp add: query_first_def)
  show ?thesis
  proof (cases "if truthy (get args ''status'') then bind_text e (get args ''status'')
                else Inr (status task)")
    case (Inl err)
    with True arg qf show ?thesis
      by (simp add: mcp_update_research_task_def Let_def)
  next
    case s: (Inr s)
    show ?thesis
    proof (cases "if truthy (get args ''result'')
                  then map_sum (\<lambda>err. err) Some (bind_text e (get args ''result''))
                  else Inr (result task)")
      case (Inl err)
      with True arg qf s show ?thesis
        by (simp add: mcp_update_research_task_def Let_def)
    next
      case r: (Inr r)
      have w': "fst (mcp_update_research_task e args w) =
          w\<lparr>tasks := commit_row (task\<lparr>status := s, result := r\<rparr>) (tasks w)\<rparr>"
        using True arg qf s r by (simp add: mcp_update_research_task_def Let_def)
      have ks: "\<not> truthy (get args ''status'') \<longrightarrow> s = status task"
        using s by auto
      have kr: "\<not> truthy (get args ''result'') \<longrightarrow> r = result task"
        using r by auto
      from w' ks kr show ?thesis by blast
    qed
  qed
qed

lemma mcp_update_keeps:
  assumes db: "db_error e = None"
    and found: "first_by_id n (tasks w) = Some task"
    and arg: "get args ''task_id'' = PInt n"
  shows "\<exists>t. first_by_id n (tasks (fst (mcp_update_research_task e args w))) = Some t
           \<and> (\<not> truthy (get args ''status'') \<longrightarrow> status t = status task)
           \<and> (\<not> truthy (get args ''result'') \<longrightarrow> result t = result task)"
proof -
  from mcp_update_world [OF db found arg]
  show ?thesis
  proof
    assume "fst (mcp_update_research_task e args w) = w"
    with found show ?thesis by simp
  next
    assume "\<exists>s r. fst (mcp_update_research_task e args w) =
                  w\<lparr>tasks := commit_row (task\<lparr>status := s, result := r\<rparr>) (tasks w)\<rparr>
              \<and> (\<not> truthy (get args ''status'') \<longrightarrow> s = status task)
              \<and> (\<not> truthy (get args ''result'') \<longrightarrow> r = result task)"
    then obtain s r where w': "fst (mcp_update_research_task e args w) =
                  w\<lparr>tasks := commit_row (task\<lparr>status := s, result := r\<rparr>) (tasks w)\<rparr>"
      and ks: "\<not> truthy (get args ''status'') \<longrightarrow> s = status task"
      and kr: "\<not> truthy (get args ''result'') \<longrightarrow> r = result task"
      by blast
    have idt: "id' (task\<lparr>status := s, result := r\<rparr>) = n"
      using first_by_id_SomeD [OF found] by simp
    have "first_by_id n (tasks (fst (mcp_update_research_task e args w))) =
        Some (task\<lparr>status := s, result := r\<rparr>)"
      unfolding w' using first_by_id_commit_row [OF found idt] by simp
    with ks kr show ?thesis by simp
  qed
qed

lemma mcp_update_falsy_status:
  "\<not> truthy v \<Longrightarrow>
     mcp_update_research_task e (args(''status'' \<mapsto> v)) w =
     mcp_update_research_task e (args(''status'' := None)) w"
  by (simp add: mcp_update_research_task_def get_def Let_def cong: sum.case_cong option.case_cong)

lemma mcp_update_falsy_result:
  "\<not> truthy v \<Longrightarrow>
     mcp_update_research_task e (args(''result'' \<mapsto> v)) w =
     mcp_update_research_task e (args(''result'' := None)) w"
  by (simp add: mcp_update_research_task_def get_def Let_def cong: sum.case_cong option.case_cong)

text \<open>
  C10. The tool-call update treats a status (or a result) given as the empty string
  exactly as one that is not given: the two calls return the same state and the same
  reply, for every state and environment. So on an existing task, while the database
  is available, the field keeps its previous value, whereas the HTTP update given the
  empty string (for an id that is a 64-bit integer, as every id the store assigns is)
  sets the field to the empty string.
\<close>

theorem tool_update_tests_truthiness:
  "mcp_update_research_task e (args(''status'' \<mapsto> PStr [])) w =
     mcp_update_research_task e (args(''status'' := None)) w
   \<and> mcp_update_research_task e (args(''result'' \<mapsto> PStr [])) w =
     mcp_update_research_task e (args(''result'' := None)) w
   \<and> (db_error e = None \<and> first_by_id task_id (tasks w) = Some task \<longrightarrow>
        (\<exists>t. first_by_id task_id
               (tasks (fst (mcp_update_research_task e
                  (args(''task_id'' \<mapsto> PInt task_id, ''status'' \<mapsto> PStr [])) w))) = Some t
             \<and> status t = status task)
      \<and> (\<exists>t. first_by_id task_id
               (tasks (fst (mcp_update_research_task e
                  (args(''task_id'' \<mapsto> PInt task_id, ''result'' \<mapsto> PStr [])) w))) = Some t
             \<and> result t = result task)
      \<and> (in_int64 task_id \<longrightarrow>
           (\<exists>t. first_by_id task_id
                  (tasks (fst (main_update_research_task e (upd\<lparr>upd_status := Some []\<rparr>) task_id w)))
                    = Some t
                \<and> status t = [])
         \<and> (\<exists>t. first_by_id task_id
                  (tasks (fst (main_update_research_task e (upd\<lparr>upd_result := Some []\<rparr>) task_id w)))
                    = Some t
                \<and> result t = Some [])))"
proof (intro conjI impI)
  show "mcp_update_research_task e (args(''status'' \<mapsto> PStr [])) w =
     mcp_update_research_task e (args(''status'' := None)) w"
    by (rule mcp_update_falsy_status) simp
next
  show "mcp_update_research_task e (args(''result'' \<mapsto> PStr [])) w =
     mcp_update_research_task e (args(''result'' := None)) w"
    by (rule mcp_update_falsy_result) simp
next
  assume h: "db_error e = None \<and> first_by_id task_id (tasks w) = Some task"
  let ?args = "args(''task_id'' \<mapsto> PInt task_id, ''status'' \<mapsto> PStr [])"
  have arg: "get ?args ''task_id'' = PInt task_id" and st: "\<not> truthy (get ?args ''status'')"
    by (simp_all add: get_def)
  from mcp_update_keeps [OF conjunct1 [OF h] conjunct2 [OF h] arg] st
  show "\<exists>t. first_by_id task_id (tasks (fst (mcp_update_research_task e ?args w))) = Some t
             \<and> status t = status task"
    by blast
next
  assume h: "db_error e = None \<and> first_by_id task_id (tasks w) = Some task"
  let ?args = "args(''task_id'' \<mapsto> PInt task_id, ''result'' \<mapsto> PStr [])"
  have arg: "get ?args ''task_id'' = PInt task_id" and st: "\<not> truthy (get ?args ''result'')"
    by (simp_all add: get_def)
  from mcp_update_keeps [OF conjunct1 [OF h] conjunct2 [OF h] arg] st
  show "\<exists>t. first_by_id task_id (tasks (fst (mcp_update_research_task e ?args w))) = Some t
             \<and> result t = result task"
    by blast
next
  assume h: "db_error e = None \<and> first_by_id task_id (tasks w) = Some task"
    and rng: "in_int64 task_id"
  from main_update_lookup [OF conjunct1 [OF h] rng conjunct2 [OF h], of "upd\<lparr>upd_status := Some []\<rparr>"]
  show "\<exists>t. first_by_id task_id
          (tasks (fst (main_update_research_task e (upd\<lparr>upd_status := Some []\<rparr>) task_id w))) = Some t
             \<and> status t = []"
    by auto
next
  assume h: "db_error e = None \<and> first_by_id task_id (tasks w) = Some task"
    and rng: "in_int64 task_id"
  from main_update_lookup [OF conjunct1 [OF h] rng conjunct2 [OF h], of "upd\<lparr>upd_result := Some []\<rparr>"]
  show "\<exists>t. first_by_id task_id
          (tasks (fst (main_update_research_task e (upd\<lparr>upd_result := Some []\<rparr>) task_id w))) = Some t
             \<and> result t = Some []"
    by auto
qed

theorem tool_update_tests_truthiness_witness:
  "db_error env_down = None \<and> first_by_id 1 (tasks world_one) = Some task_one \<and> in_int64 1
   \<and> map result (tasks (fst (mcp_update_research_task env_down
                   [''task_id'' \<mapsto> PInt 1, ''result'' \<mapsto> PStr ''''] world_one))) =
       [Some ''X'']
   \<and> map result (tasks (fst (main_update_research_task env_down
                   \<lparr>upd_status = None, upd_result = Some ''''\<rparr> 1 world_one))) =
       [Some '''']"
  using tool_update_tests_truthiness
    [of env_down Map.empty world_one 1 task_one "\<lparr>upd_status = None, upd_result = None\<rparr>"]
  by (simp add: main_update_research_task_def mcp_update_research_task_def query_first_def
      in_int64_def get_def first_by_id_def commit_row_def world_one_def task_one_def env_down_def
      env_with_def ResearchTask_of_def Let_def)

section \<open>The dispatcher of the tool-call adapter\<close>

lemma mcp_analyze_falsy:
  "\<not> truthy (get args ''content'') \<Longrightarrow>
     mcp_analyze_content e args w = (w, Inr (text_result ''Error: content is required''))"
  by (simp add: mcp_analyze_content_def Let_def)

lemma mcp_update_missing:
  "db_error e = None \<Longrightarrow> get args ''task_id'' = PInt n \<Longrightarrow> n \<noteq> 0 \<Longrightarrow> in_int64 n \<Longrightarrow>
   first_by_id n (tasks w) = None \<Longrightarrow>
     mcp_update_research_task e args w =
       (w, Inr (text_result (''Task '' @ str_int n @ '' not found'')))"
  by (simp add: mcp_update_research_task_def query_first_def py_format_def Let_def)

lemma mcp_create_shape:
  "\<exists>w'. (\<exists>err. mcp_create_research_task e args w = (w', Inl err))
       \<or> (\<exists>s. mcp_create_research_task e args w = (w', Inr (text_result s)))"
  by (auto simp: mcp_create_research_task_def Let_def split: option.splits sum.splits)

lemma list_shape:
  "\<exists>w'. (\<exists>err. list_research_tasks e w = (w', Inl err))
       \<or> (\<exists>s. list_research_tasks e w = (w', Inr (text_result s)))"
  by (auto simp: list_research_tasks_def split: option.splits)

lemma mcp_update_shape:
  "\<exists>w'. (\<exists>err. mcp_update_research_task e args w = (w', Inl err))
       \<or> (\<exists>s. mcp_update_research_task e args w = (w', Inr (text_result s)))"
  by (auto simp: mcp_update_research_task_def Let_def split: option.splits sum.splits)

lemma mcp_analyze_shape:
  "\<exists>w'. (\<exists>err. mcp_analyze_content e args w = (w', Inl err))
       \<or> (\<exists>s. mcp_analyze_content e args w = (w', Inr (text_result s)))"
  by (auto simp: mcp_analyze_content_def Let_def split: prod.splits sum.splits)

lemma dispatch_shape:
  "\<exists>w'. (\<exists>err. dispatch e name args w = (w', Inl err))
       \<or> (\<exists>s. dispatch e name args w = (w', Inr (text_result s)))"
  unfolding dispatch_def
  using mcp_create_shape [of e args w] list_shape [of e w] mcp_update_shape [of e args w]
    mcp_analyze_shape [of e args w]
  by auto

lemma dispatch_query_required:
  "name = ''create_research_task'' \<and> \<not> truthy (get args ''query'') \<longrightarrow>
     dispatch e name args w = (w, Inr (text_result ''Error: query is required''))"
  by (simp add: dispatch_def mcp_create_falsy)

lemma dispatch_content_required:
  "name = ''analyze_content'' \<and> \<not> truthy (get args ''content'') \<longrightarrow>
     dispatch e name args w = (w, Inr (text_result ''Error: content is required''))"
  by (simp add: dispatch_def mcp_analyze_falsy)

lemma dispatch_task_id_required:
  "name = ''update_research_task'' \<and> \<not> truthy (get args ''task_id'') \<longrightarrow>
     dispatch e name args w = (w, Inr (text_result ''Error: task_id is required''))"
  by (simp add: dispatch_def mcp_update_research_task_def Let_def)

lemma dispatch_not_found:
  "\<forall>n. name = ''update_research_task'' \<and> get args ''task_id'' = PInt n \<and> n \<noteq> 0 \<and> in_int64 n
        \<and> db_error e = None \<and> first_by_id n (tasks w) = None \<longrightarrow>
     dispatch e name args w = (w, Inr (text_result (''Task '' @ str_int n @ '' not found'')))"
proof (intro allI impI)
  fix n
  assume h: "name = ''update_research_task'' \<and> get args ''task_id'' = PInt n \<and> n \<noteq> 0 \<and> in_int64 n
              \<and> db_error e = None \<and> first_by_id n (tasks w) = None"
  then have "mcp_update_research_task e args w =
      (w, Inr (text_result (''Task '' @ str_int n @ '' not found'')))"
    using mcp_update_missing [of e args n w] by simp
  with h show "dispatch e name args w =
      (w, Inr (text_result (''Task '' @ str_int n @ '' not found'')))"
    by (simp add: dispatch_def)
qed

lemma dispatch_unknown:
  "name \<noteq> ''create_research_task'' \<and> name \<noteq> ''list_research_tasks''
     \<and> name \<noteq> ''update_research_task'' \<and> name \<noteq> ''analyze_content'' \<longrightarrow>
     dispatch e name args w = (w, Inr (text_result (''Unknown tool: '' @ name)))"
  by (simp add: dispatch_def)

lemma text_result_inject: "text_result a = text_result b \<Longrightarrow> a = b"
  by (simp add: text_result_def)

text \<open>
  C9. For every tool name, every argument dictionary (any keys, values of any type),
  every state and environment, the dispatcher returns (it raises nothing) an envelope
  that is not flagged as an error and holds one text block. When the tool it called
  raised an exception, whatever it is, the text is \<open>Error: \<close> followed by the
  exception's message, and the state is the one the tool left. The conditions that the
  HTTP adapter raises as client errors are texts here: a missing or falsy query,
  content or task id, and a task id that is not in the table (a non-zero 64-bit
  integer, the database being available); and so is a tool name that is not known.
\<close>

theorem dispatcher_always_text_envelope:
  "\<exists>w' s. handle_call_tool e name args w =
            (w', Inr \<lparr>content = [\<lparr>type' = ''text'', text' = s\<rparr>], isError = False\<rparr>)
     \<and> w' = fst (dispatch e name args w)
     \<and> (\<forall>err. snd (dispatch e name args w) = Inl err \<longrightarrow> s = ''Error: '' @ str_error err)
     \<and> (name = ''create_research_task'' \<and> \<not> truthy (get args ''query'') \<longrightarrow>
          s = ''Error: query is required'')
     \<and> (name = ''analyze_content'' \<and> \<not> truthy (get args ''content'') \<longrightarrow>
          s = ''Error: content is required'')
     \<and> (name = ''update_research_task'' \<and> \<not> truthy (get args ''task_id'') \<longrightarrow>
          s = ''Error: task_id is required'')
     \<and> (\<forall>n. name = ''update_research_task'' \<and> get args ''task_id'' = PInt n \<and> n \<noteq> 0
              \<and> in_int64 n \<and> db_error e = None \<and> first_by_id n (tasks w) = None \<longrightarrow>
          s = ''Task '' @ str_int n @ '' not found'')
     \<and> (name \<noteq> ''create_research_task'' \<and> name \<noteq> ''list_research_tasks''
          \<and> name \<noteq> ''update_research_task'' \<and> name \<noteq> ''analyze_content'' \<longrightarrow>
          s = ''Unknown tool: '' @ name)"
proof -
  from dispatch_shape [of e name args w]
  obtain w' where shape: "(\<exists>err. dispatch e name args w = (w', Inl err))
       \<or> (\<exists>s. dispatch e name args w = (w', Inr (text_result s)))"
    by blast
  then show ?thesis
  proof
    assume "\<exists>err. dispatch e name args w = (w', Inl err)"
    then obtain err where d: "dispatch e name args w = (w', Inl err)" by blast
    have no: "\<And>w0 r. dispatch e name args w \<noteq> (w0, Inr r)"
      by (simp add: d)
    show ?thesis
    proof (intro exI [of _ w'] exI [of _ "''Error: '' @ str_error err"] conjI)
      show "handle_call_tool e name args w =
        (w', Inr \<lparr>content = [\<lparr>type' = ''text'', text' = ''Error: '' @ str_error err\<rparr>],
                  isError = False\<rparr>)"
        by (simp add: handle_call_tool_def d text_result_def)
      show "w' = fst (dispatch e name args w)"
        by (simp add: d)
      show "\<forall>err'. snd (dispatch e name args w) = Inl err' \<longrightarrow>
          ''Error: '' @ str_error err = ''Error: '' @ str_error err'"
        by (simp add: d)
      show "name = ''create_research_task'' \<and> \<not> truthy (get args ''query'') \<longrightarrow>
          ''Error: '' @ str_error err = ''Error: query is required''"
        using dispatch_query_required [of name args e w] no by blast
      show "name = ''analyze_content'' \<and> \<not> truthy (get args ''content'') \<longrightarrow>
          ''Error: '' @ str_error err = ''Error: content is required''"
        using dispatch_content_required [of name args e w] no by blast
      show "name = ''update_research_task'' \<and> \<not> truthy (get args ''task_id'') \<longrightarrow>
          ''Error: '' @ str_error err = ''Error: task_id is required''"
        using dispatch_task_id_required [of name args e w] no by blast
      show "\<forall>n. name = ''update_research_task'' \<and> get args ''task_id'' = PInt n \<and> n \<noteq> 0
              \<and> in_int64 n \<and> db_error e = None \<and> first_by_id n (tasks w) = None \<longrightarrow>
          ''Error: '' @ str_error err = ''Task '' @ str_int n @ '' not found''"
        using dispatch_not_found [of name args e w] no by blast
      show "name \<noteq> ''create_research_task'' \<and> name \<noteq> ''list_research_tasks''
          \<and> name \<noteq> ''update_research_task'' \<and> name \<noteq> ''analyze_content'' \<longrightarrow>
          ''Error: '' @ str_error err = ''Unknown tool: '' @ name"
        using dispatch_unknown [of name e args w] no by blast
    qed
  next
    assume "\<exists>s. dispatch e name args w = (w', Inr (text_result s))"
    then obtain s where d: "dispatch e name args w = (w', Inr (text_result s))" by blast
    have same: "\<And>w0 t. dispatch e name args w = (w0, Inr (text_result t)) \<Longrightarrow> s = t"
      using d text_result_inject by simp
    show ?thesis
    proof (intro exI [of _ w'] exI [of _ s] conjI)
      show "handle_call_tool e name args w =
        (w', Inr \<lparr>content = [\<lparr>type' = ''text'', text' = s\<rparr>], isError = False\<rparr>)"
        by (simp add: handle_call_tool_def d text_result_def)
      show "w' = fst (dispatch e name args w)"
        by (simp add: d)
      show "\<forall>err. snd (dispatch e name args w) = Inl err \<longrightarrow> s = ''Error: '' @ str_error err"
        by (simp add: d)
      show "name = ''create_research_task'' \<and> \<not> truthy (get args ''query'') \<longrightarrow>
          s = ''Error: query is required''"
        using dispatch_query_required [of name args e w] same by blast
      show "name = ''analyze_content'' \<and> \<not> truthy (get args ''content'') \<longrightarrow>
          s = ''Error: content is required''"
        using dispatch_content_required [of name args e w] same by blast
      show "name = ''update_research_task'' \<and> \<not> truthy (get args ''task_id'') \<longrightarrow>
          s = ''Error: task_id is required''"
        using dispatch_task_id_required [of name args e w] same by blast
      show "\<forall>n. name = ''update_research_task'' \<and> get args ''task_id'' = PInt n \<and> n \<noteq> 0
              \<and> in_int64 n \<and> db_error e = None \<and> first_by_id n (tasks w) = None \<longrightarrow>
          s = ''Task '' @ str_int n @ '' not found''"
        using dispatch_not_found [of name args e w] same by blast
      show "name \<noteq> ''create_research_task'' \<and> name \<noteq> ''list_research_tasks''
          \<and> name \<noteq> ''update_research_task'' \<and> name \<noteq> ''analyze_content'' \<longrightarrow>
          s = ''Unknown tool: '' @ name"
        using dispatch_unknown [of name e args w] same by blast
    qed
  qed
qed

theorem dispatcher_always_text_envelope_witness:
  "snd (dispatch env_locked ''list_research_tasks'' Map.empty world_one) =
     Inl (Exception ''database is locked'')
   \<and> handle_call_tool env_locked ''list_research_tasks'' Map.empty world_one =
       (world_one,
        Inr \<lparr>content = [\<lparr>type' = ''text'', text' = ''Error: database is locked''\<rparr>], isError = False\<rparr>)
   \<and> handle_call_tool env_down ''update_research_task''
         [''task_id'' \<mapsto> PInt (2 ^ 63), ''status'' \<mapsto> PList [PStr ''x'']] world_one =
       (world_one,
        Inr \<lparr>content = [\<lparr>type' = ''text'',
                          text' = ''Error: Python int too large to convert to SQLite INTEGER''\<rparr>],
             isError = False\<rparr>)"
proof -
  have d: "dispatch env_locked ''list_research_tasks'' Map.empty world_one =
      (world_one, Inl (Exception ''database is locked''))"
    by (simp add: dispatch_def list_research_tasks_def env_locked_def env_with_def)
  from dispatcher_always_text_envelope [of env_locked "''list_research_tasks''" Map.empty world_one]
  obtain w' s where
    h: "handle_call_tool env_locked ''list_research_tasks'' Map.empty world_one =
          (w', Inr \<lparr>content = [\<lparr>type' = ''text'', text' = s\<rparr>], isError = False\<rparr>)"
    and st: "w' = fst (dispatch env_locked ''list_research_tasks'' Map.empty world_one)"
    and ex: "\<forall>err. snd (dispatch env_locked ''list_research_tasks'' Map.empty world_one) = Inl err
               \<longrightarrow> s = ''Error: '' @ str_error err"
    by (elim exE conjE)
  from ex d have "s = ''Error: database is locked''"
    by (simp add: str_error_def)
  with h st d have locked: "handle_call_tool env_locked ''list_research_tasks'' Map.empty world_one =
       (world_one,
        Inr \<lparr>content = [\<lparr>type' = ''text'', text' = ''Error: database is locked''\<rparr>], isError = False\<rparr>)"
    by simp
  have big: "handle_call_tool env_down ''update_research_task''
         [''task_id'' \<mapsto> PInt (2 ^ 63), ''status'' \<mapsto> PList [PStr ''x'']] world_one =
       (world_one,
        Inr \<lparr>content = [\<lparr>type' = ''text'',
                          text' = ''Error: Python int too large to convert to SQLite INTEGER''\<rparr>],
             isError = False\<rparr>)"
    by (simp add: handle_call_tool_def dispatch_def mcp_update_research_task_def query_first_def
        in_int64_def overflow_error_def get_def str_error_def text_result_def env_down_def
        env_with_def Let_def)
  from d locked big show ?thesis by simp
qed

section \<open>Where the two adapters part\<close>

text \<open>
  C3 fails on the HTTP adapter, which inserts a record for the empty query: on the
  empty table, with the database available, \<open>POST /research\<close> with \<open>query = ""\<close>
  returns the pending task 1 and schedules its callback. The tool-call adapter
  rejects the same query and leaves the table empty.
\<close>

theorem http_create_accepts_empty_query:
  "main_create_research_task env_down \<lparr>req_query = ''''\<rparr> world_empty =
     (\<lparr>tasks = [\<lparr>id' = 1, query = '''', status = ''pending'', result = None, timestamp = 0\<rparr>],
       sent = [], scheduled = [(1, PStr '''')]\<rparr>,
      Inr \<lparr>id' = 1, query = '''', status = ''pending'', result = None, timestamp = 0\<rparr>)
   \<and> mcp_create_research_task env_down [''query'' \<mapsto> PStr ''''] world_empty =
     (world_empty, Inr (text_result ''Error: query is required''))"
  by (simp add: main_create_research_task_def mcp_create_research_task_def get_def env_down_def
      env_with_def world_empty_def ResearchTask_of_def next_id_def Let_def)

text \<open>
  C7 fails on the HTTP adapter, which does not reject empty content: \<open>POST /analyze\<close>
  with \<open>content = ""\<close> sends the prompt to the LLM and returns its text. The tool-call
  adapter rejects the same content without a call of the LLM.
\<close>

theorem http_analyze_accepts_empty_content:
  "main_analyze_content env_text \<lparr>req_content = ''''\<rparr> world_one =
     (world_one\<lparr>sent := [post_of ollama_client (analysis_prompt '''') ''llama3.2'' (1 / 5) 512]\<rparr>,
      Inr \<lparr>analysis = ''Use rotating proxies.''\<rparr>)
   \<and> mcp_analyze_content env_text [''content'' \<mapsto> PStr ''''] world_one =
     (world_one, Inr (text_result ''Error: content is required''))"
  by (simp add: main_analyze_content_def mcp_analyze_content_def get_def ollama_generate_def
      generate_def generate_try_def raises_for_status_def as_str_def or_fallback_def env_text_def
      env_with_def world_one_def Let_def)

text \<open>
  C2 fails on the tool-call adapter, which does not write a status that is provided
  as the empty string: task 1 exists with status \<open>completed\<close>, and after the update
  that provides only \<open>status = ""\<close> the table is as before, although the reply says
  the task was updated. The HTTP adapter writes the empty status.
\<close>

theorem tool_update_ignores_empty_status:
  "first_by_id 1 (tasks world_one) = Some task_one
   \<and> status task_one = ''completed''
   \<and> mcp_update_research_task env_down [''task_id'' \<mapsto> PInt 1, ''status'' \<mapsto> PStr ''''] world_one =
       (world_one, Inr (text_result ''Task 1 updated successfully. Status: completed''))
   \<and> tasks (fst (main_update_research_task env_down \<lparr>upd_status = Some '''', upd_result = None\<rparr>
                   1 world_one)) =
       [task_one\<lparr>status := ''''\<rparr>]"
  by (simp add: mcp_update_research_task_def main_update_research_task_def query_first_def
      in_int64_def get_def py_format_def str_int_1 first_by_id_def commit_row_def world_one_def
      task_one_def env_down_def env_with_def ResearchTask_of_def Let_def)

text \<open>
  C5 fails on the tool-call adapter for the id 0, which is not in the table and is
  answered as a missing argument, not as an unknown task; the HTTP adapter answers
  the same id with 404. It fails on both adapters for an id beyond the store's 64-bit
  integers: the lookup raises, so the HTTP adapter answers with a server error and the
  tool-call adapter with the text of the exception. The table is unchanged each time.
\<close>

theorem update_of_id_zero_and_of_huge_id:
  "first_by_id 0 (tasks world_one) = None
   \<and> mcp_update_research_task env_down [''task_id'' \<mapsto> PInt 0, ''status'' \<mapsto> PStr ''x''] world_one =
       (world_one, Inr (text_result ''Error: task_id is required''))
   \<and> main_update_research_task env_down \<lparr>upd_status = Some ''x'', upd_result = None\<rparr> 0 world_one =
       (world_one, Inl (HTTPException 404 ''Task not found''))
   \<and> first_by_id (2 ^ 63) (tasks world_one) = None
   \<and> main_update_research_task env_down \<lparr>upd_status = Some ''x'', upd_result = None\<rparr> (2 ^ 63)
        world_one =
       (world_one, Inl (Exception ''Python int too large to convert to SQLite INTEGER''))
   \<and> handle_call_tool env_down ''update_research_task''
        [''task_id'' \<mapsto> PInt (2 ^ 63), ''status'' \<mapsto> PStr ''x''] world_one =
       (world_one,
        Inr (text_result ''Error: Python int too large to convert to SQLite INTEGER''))"
  by (simp add: mcp_update_research_task_def main_update_research_task_def handle_call_tool_def
      dispatch_def query_first_def in_int64_def overflow_error_def get_def str_error_def
      first_by_id_def world_one_def task_one_def env_down_def env_with_def Let_def)

text \<open>
  C6 fails: the adapters' updates do not always leave a task in the same state. On the
  existing task 1, the update that provides \<open>status = ""\<close> sets the status to the
  empty string on the HTTP adapter and leaves the task as it was on the tool-call
  adapter.
\<close>

theorem adapters_differ_on_empty_status:
  "first_by_id 1 (tasks world_one) = Some task_one
   \<and> map status (tasks (fst (main_update_research_task env_down
                   \<lparr>upd_status = Some '''', upd_result = None\<rparr> 1 world_one))) = ['''']
   \<and> map status (tasks (fst (mcp_update_research_task env_down
                   [''task_id'' \<mapsto> PInt 1, ''status'' \<mapsto> PStr ''''] world_one))) =
       [''completed'']"
  by (simp add: main_update_research_task_def mcp_update_research_task_def query_first_def
      in_int64_def get_def first_by_id_def commit_row_def world_one_def task_one_def env_down_def
      env_with_def ResearchTask_of_def Let_def)

end
